theory Spec2Isabelle
  imports Complex_Main
begin

section \<open>Strings\<close>

text \<open>
  The labels of the program are JavaScript strings. They are modelled as \<open>string\<close>
  (lists of 8-bit characters, read as the code units U+0000 .. U+00FF); the three
  library operations the place comparison uses are written out for that range:
  \<open>String.prototype.toLowerCase\<close>, \<open>String.prototype.split\<close> with a one-character
  separator, and \<open>String.prototype.trim\<close>. None of the theorems below depends on which
  characters count as upper case or as white space.
\<close>

definition isWhiteSpace :: "char \<Rightarrow> bool" where
  "isWhiteSpace c = (of_char c \<in> {9, 10, 11, 12, 13, 32, 160 :: nat})"

definition toLowerCase_char :: "char \<Rightarrow> char" where
  "toLowerCase_char c =
     (let n = of_char c :: nat
      in if (65 \<le> n \<and> n \<le> 90) \<or> (192 \<le> n \<and> n \<le> 222 \<and> n \<noteq> 215)
         then char_of (n + 32) else c)"

definition toLowerCase :: "string \<Rightarrow> string" where
  "toLowerCase s = map toLowerCase_char s"

text \<open>\<open>s.split(sep)\<close>: always at least one part; \<open>''''.split('','')\<close> is \<open>['''']\<close>.\<close>

fun split :: "char \<Rightarrow> string \<Rightarrow> string list" where
  "split sep [] = [[]]"
| "split sep (c # cs) =
     (if c = sep then [] # split sep cs
      else (case split sep cs of [] \<Rightarrow> [[c]] | p # ps \<Rightarrow> (c # p) # ps))"

definition trim :: "string \<Rightarrow> string" where
  "trim s = rev (dropWhile isWhiteSpace (rev (dropWhile isWhiteSpace s)))"

text \<open>\<open>xs[i]\<close> of a JavaScript array: \<open>undefined\<close> (here \<open>None\<close>) out of range.\<close>

definition nth_opt :: "'a list \<Rightarrow> nat \<Rightarrow> 'a option" where
  "nth_opt xs i = (if i < length xs then Some (xs ! i) else None)"

text \<open>\<open>s.includes(sub)\<close>: \<open>sub\<close> occurs in \<open>s\<close> as a contiguous substring.\<close>

fun startsWith :: "string \<Rightarrow> string \<Rightarrow> bool" where
  "startsWith s [] = True"
| "startsWith [] (c # cs) = False"
| "startsWith (d # ds) (c # cs) = (d = c \<and> startsWith ds cs)"

fun includes_str :: "string \<Rightarrow> string \<Rightarrow> bool" where
  "includes_str [] sub = (sub = [])"
| "includes_str (c # cs) sub = (startsWith (c # cs) sub \<or> includes_str cs sub)"


section \<open>Data model of the location service\<close>

text \<open>
  \<open>interface LocationData\<close>. Coordinates are JavaScript numbers; they are modelled as
  reals, so rounding of the floating-point arithmetic is not part of the model. The
  timestamp is the ISO string the background task writes; \<open>locationName\<close> is optional.
\<close>

record LocationData =
  latitude :: real
  longitude :: real
  timestamp :: string
  locationName :: "string option"


section \<open>Place-change comparison\<close>

text \<open>
  \<open>hasLocationNameChanged(oldName, newName)\<close>. \<open>!oldName\<close> holds for the empty
  string.
\<close>

definition hasLocationNameChanged :: "string \<Rightarrow> string \<Rightarrow> bool" where
  "hasLocationNameChanged oldName newName =
     (if oldName = [] \<or> newName = [] then True
      else
        let oldParts = map trim (split CHR '','' (toLowerCase oldName));
            newParts = map trim (split CHR '','' (toLowerCase newName))
        in if nth_opt oldParts 0 \<noteq> nth_opt newParts 0 then True
           else if 1 < length oldParts \<and> 1 < length newParts \<and> nth_opt oldParts 1 \<noteq> nth_opt newParts 1
             then True
           else if 2 < length oldParts \<and> 2 < length newParts \<and> nth_opt oldParts 2 \<noteq> nth_opt newParts 2
             then True
           else False)"

text \<open>
  The comparison as the specification words it: a label is split on commas into
  ordered parts, each lower-cased and trimmed; two labels are the same place when both
  are non-empty, part 0 is equal, and parts 1 and 2 are equal wherever both sides have
  them.
\<close>

definition label_parts :: "string \<Rightarrow> string list" where
  "label_parts label = map (\<lambda>p. trim (toLowerCase p)) (split CHR '','' label)"

definition same_place :: "string \<Rightarrow> string \<Rightarrow> bool" where
  "same_place a b =
     (a \<noteq> [] \<and> b \<noteq> [] \<and>
      nth_opt (label_parts a) 0 = nth_opt (label_parts b) 0 \<and>
      (length (label_parts a) \<le> 1 \<or> length (label_parts b) \<le> 1 \<or>
         nth_opt (label_parts a) 1 = nth_opt (label_parts b) 1) \<and>
      (length (label_parts a) \<le> 2 \<or> length (label_parts b) \<le> 2 \<or>
         nth_opt (label_parts a) 2 = nth_opt (label_parts b) 2))"



section \<open>The world outside the program\<close>

text \<open>
  A promise either rejects (the awaited call throws) or resolves to a value.
\<close>

datatype 'a outcome = Rejects | Resolves 'a

text \<open>
  The fields of an address of the device geocoder that \<open>getLocationName\<close> reads
  (\<open>null\<close> is \<open>None\<close>), and the body of a response of the remote geocoding service:
  its status and the \<open>formatted_address\<close> of each result. A request that fails and
  a body that is not JSON or whose \<open>results\<close> cannot be read make the awaited code
  throw: that is \<open>Rejects\<close>.
\<close>

record LocationGeocodedAddress =
  geo_name :: "string option"
  geo_street :: "string option"
  geo_district :: "string option"
  geo_city :: "string option"
  geo_region :: "string option"

record GeocodeResult =
  formatted_address :: string

record GeocodeResponse =
  status :: string
  results :: "GeocodeResult list"

text \<open>
  What one call of a method of the service observes of its environment: the clock
  (\<open>Date.now()\<close>, in milliseconds; read when the call starts and possibly again after
  its awaited calls), whether the reads and writes of \<open>AsyncStorage\<close> succeed, the
  answers of the two geocoders, and the library functions on numbers and dates that
  the program takes from its platform: \<open>Number.prototype.toFixed(4)\<close>, the parse
  \<open>new Date(string)\<close> (\<open>None\<close> for an invalid date) and the date part of
  \<open>Date.prototype.toISOString\<close>.
\<close>

record env =
  clock :: int
  clock_late :: int
  getItem_ok :: bool
  setItem_ok :: bool
  reverseGeocodeAsync :: "real \<Rightarrow> real \<Rightarrow> LocationGeocodedAddress list outcome"
  fetch_geocode :: "real \<Rightarrow> real \<Rightarrow> GeocodeResponse outcome"
  toFixed4 :: "real \<Rightarrow> string"
  parseDate :: "string \<Rightarrow> int option"
  toISODate :: "int \<Rightarrow> string"

text \<open>
  \<open>AsyncStorage\<close>, by the two kinds of key the service uses: the single key
  \<open>last_significant_location\<close>, and the keys \<open>significant_locations_YYYY-MM-DD\<close>,
  indexed here by their date part. A stored value is the JSON text of the value;
  serialising and parsing it is taken to give the value back.
\<close>

record AsyncStorage =
  last_significant_location :: "LocationData option"
  significant_locations :: "string \<Rightarrow> LocationData list option"


section \<open>Reverse label lookup\<close>

text \<open>\<open>if (field) parts.push(field)\<close>: a field is pushed when it is a non-empty string.\<close>

definition push_if :: "string option \<Rightarrow> string list \<Rightarrow> string list" where
  "push_if field parts =
     (case field of None \<Rightarrow> parts | Some v \<Rightarrow> if v \<noteq> [] then parts @ [v] else parts)"

fun join :: "string \<Rightarrow> string list \<Rightarrow> string" where
  "join sep [] = []"
| "join sep [p] = p"
| "join sep (p # q # ps) = p @ sep @ join sep (q # ps)"

definition coordinate_label :: "env \<Rightarrow> real \<Rightarrow> real \<Rightarrow> string" where
  "coordinate_label e lat lon = toFixed4 e lat @ '', '' @ toFixed4 e lon"

definition device_address :: "LocationGeocodedAddress \<Rightarrow> string" where
  "device_address location =
     (let parts = push_if (geo_region location)
                   (push_if (geo_city location)
                     (push_if (geo_district location)
                       (push_if (geo_street location)
                         (push_if (geo_name location) []))))
      in join '', '' (filter (\<lambda>p. p \<noteq> []) parts))"

text \<open>
  \<open>getLocationName(latitude, longitude)\<close>. A rejection of the device geocoder is
  caught by the outer handler, and the remote service is then not asked; a rejection
  of the remote service is caught by the inner handler. \<open>remote_lookup\<close> is the part
  of the function after the device geocoder has given no address.
\<close>

definition remote_lookup :: "env \<Rightarrow> real \<Rightarrow> real \<Rightarrow> string" where
  "remote_lookup e lat lon =
     (case fetch_geocode e lat lon of
        Rejects \<Rightarrow> coordinate_label e lat lon
      | Resolves data \<Rightarrow>
          (case results data of
             [] \<Rightarrow> coordinate_label e lat lon
           | result # _ \<Rightarrow>
               if status data = ''OK'' then formatted_address result
               else coordinate_label e lat lon))"

definition getLocationName :: "env \<Rightarrow> real \<Rightarrow> real \<Rightarrow> string" where
  "getLocationName e lat lon =
     (case reverseGeocodeAsync e lat lon of
        Rejects \<Rightarrow> coordinate_label e lat lon
      | Resolves reverseGeocode \<Rightarrow>
          (case reverseGeocode of
             [] \<Rightarrow> remote_lookup e lat lon
           | location # _ \<Rightarrow>
               if device_address location \<noteq> [] then device_address location
               else remote_lookup e lat lon))"


section \<open>Geodesic distance\<close>

text \<open>\<open>Math.atan2(y, x)\<close> on the reals.\<close>

definition atan2 :: "real \<Rightarrow> real \<Rightarrow> real" where
  "atan2 y x =
     (if 0 < x then arctan (y / x)
      else if x < 0 then (if 0 \<le> y then arctan (y / x) + pi else arctan (y / x) - pi)
      else if 0 < y then pi / 2
      else if y < 0 then - (pi / 2)
      else 0)"

definition calculateDistance :: "real \<Rightarrow> real \<Rightarrow> real \<Rightarrow> real \<Rightarrow> real" where
  "calculateDistance lat1 lon1 lat2 lon2 =
     (let R = 6371000;
          phi1 = lat1 * pi / 180;
          phi2 = lat2 * pi / 180;
          dphi = (lat2 - lat1) * pi / 180;
          dlambda = (lon2 - lon1) * pi / 180;
          a = sin (dphi / 2) * sin (dphi / 2) +
              cos phi1 * cos phi2 * sin (dlambda / 2) * sin (dlambda / 2);
          c = 2 * atan2 (sqrt a) (sqrt (1 - a))
      in R * c)"


section \<open>The stay detector\<close>

text \<open>
  The fields of \<open>class LocationService\<close> that the detector reads and writes, with the
  values a new instance (a new process) starts from.
\<close>

record LocationService =
  lastSignificantLocation :: "LocationData option"
  lastLocationUpdate :: "LocationData option"
  stationaryStartTime :: "int option"

definition LocationService_new :: LocationService where
  "LocationService_new =
     \<lparr>lastSignificantLocation = None, lastLocationUpdate = None, stationaryStartTime = None\<rparr>"

definition STATIONARY_THRESHOLD :: int where
  "STATIONARY_THRESHOLD = 5 * 60 * 1000"

definition LOCATION_RADIUS :: real where
  "LOCATION_RADIUS = 100"

definition saveLastSignificantLocation :: "env \<Rightarrow> LocationData \<Rightarrow> AsyncStorage \<Rightarrow> AsyncStorage" where
  "saveLastSignificantLocation e location store =
     (if setItem_ok e then store\<lparr>last_significant_location := Some location\<rparr> else store)"

definition loadLastSignificantLocation :: "env \<Rightarrow> AsyncStorage \<Rightarrow> LocationService \<Rightarrow> LocationService" where
  "loadLastSignificantLocation e store svc =
     (if getItem_ok e
      then (case last_significant_location store of
              None \<Rightarrow> svc
            | Some d \<Rightarrow> svc\<lparr>lastSignificantLocation := Some d\<rparr>)
      else svc)"

text \<open>
  \<open>checkForSignificantLocationChange(newLocation)\<close>. The result is the returned
  flag, the argument object as the call leaves it (the call writes its
  \<open>locationName\<close>, which the background task then stores), the fields of the service
  and the storage. \<open>this.stationaryStartTime &&\<close> fails for \<open>null\<close> and for \<open>0\<close>.
\<close>

definition checkForSignificantLocationChange ::
  "env \<Rightarrow> LocationData \<Rightarrow> LocationService \<times> AsyncStorage
     \<Rightarrow> bool \<times> LocationData \<times> LocationService \<times> AsyncStorage" where
  "checkForSignificantLocationChange e newLocation s =
     (let store = snd s;
          svc = (if lastSignificantLocation (fst s) = None
                 then loadLastSignificantLocation e store (fst s) else fst s)
      in case lastSignificantLocation svc of
           None \<Rightarrow>
             (False, newLocation,
              svc\<lparr>lastLocationUpdate := Some newLocation, stationaryStartTime := Some (clock e)\<rparr>,
              store)
         | Some lastSignificant \<Rightarrow>
            (case lastLocationUpdate svc of
               None \<Rightarrow>
                 (False, newLocation,
                  svc\<lparr>lastLocationUpdate := Some newLocation, stationaryStartTime := Some (clock e)\<rparr>,
                  store)
             | Some lastUpdate \<Rightarrow>
                 let distance = calculateDistance (latitude lastUpdate) (longitude lastUpdate)
                                  (latitude newLocation) (longitude newLocation)
                 in if distance > LOCATION_RADIUS
                    then (False, newLocation,
                          svc\<lparr>lastLocationUpdate := Some newLocation,
                              stationaryStartTime := Some (clock e)\<rparr>,
                          store)
                    else
                      (case stationaryStartTime svc of
                         None \<Rightarrow> (False, newLocation, svc, store)
                       | Some start \<Rightarrow>
                           if start \<noteq> 0 \<and> distance \<le> LOCATION_RADIUS
                           then
                             if clock e - start \<ge> STATIONARY_THRESHOLD
                             then
                               let newLocationName =
                                     getLocationName e (latitude newLocation) (longitude newLocation);
                                   named = newLocation\<lparr>locationName := Some newLocationName\<rparr>;
                                   lastLocationName =
                                     (case locationName lastSignificant of
                                        None \<Rightarrow> [] | Some n \<Rightarrow> n)
                               in if hasLocationNameChanged lastLocationName newLocationName
                                  then (True, named,
                                        svc\<lparr>lastSignificantLocation := Some named,
                                            stationaryStartTime := Some (clock_late e)\<rparr>,
                                        saveLastSignificantLocation e named store)
                                  else (False, named, svc, store)
                             else (False, newLocation, svc, store)
                           else (False, newLocation, svc, store))))"

text \<open>
  The detector run over a sequence of fixes, each with the environment its call
  observes: the flags returned, in order, and the final state.
\<close>

fun run_detector ::
  "(env \<times> LocationData) list \<Rightarrow> LocationService \<times> AsyncStorage
     \<Rightarrow> bool list \<times> LocationService \<times> AsyncStorage" where
  "run_detector [] s = ([], s)"
| "run_detector ((e, fix) # rest) s =
     (let r = checkForSignificantLocationChange e fix s;
          rs = run_detector rest (snd (snd r))
      in (fst r # fst rs, snd rs))"


text \<open>The components of the result of a call of the detector.\<close>

definition flag_of :: "bool \<times> LocationData \<times> LocationService \<times> AsyncStorage \<Rightarrow> bool" where
  "flag_of r = fst r"

definition fix_of :: "bool \<times> LocationData \<times> LocationService \<times> AsyncStorage \<Rightarrow> LocationData" where
  "fix_of r = fst (snd r)"

definition state_of ::
  "bool \<times> LocationData \<times> LocationService \<times> AsyncStorage \<Rightarrow> LocationService \<times> AsyncStorage" where
  "state_of r = snd (snd r)"


section \<open>The daily store\<close>

text \<open>
  \<open>saveSignificantLocation(location)\<close>: the key is today's date at the first reading
  of the clock, the cut-off is 24 hours before the second. A failed read or write is
  caught and leaves the storage as it was. \<open>new Date(s) > oneDayAgo\<close> is false for an
  invalid date.
\<close>

definition saveSignificantLocation :: "env \<Rightarrow> LocationData \<Rightarrow> AsyncStorage \<Rightarrow> AsyncStorage" where
  "saveSignificantLocation e location store =
     (let today = toISODate e (clock e)
      in if \<not> getItem_ok e then store
         else
           let existingData = significant_locations store today;
               locations = (case existingData of None \<Rightarrow> [] | Some ls \<Rightarrow> ls) @ [location];
               oneDayAgo = clock_late e - 24 * 60 * 60 * 1000;
               filteredLocations =
                 filter (\<lambda>loc. case parseDate e (timestamp loc) of
                                  None \<Rightarrow> False | Some t \<Rightarrow> t > oneDayAgo) locations
           in if \<not> setItem_ok e then store
              else store\<lparr>significant_locations :=
                           (significant_locations store)(today \<mapsto> filteredLocations)\<rparr>)"

definition loadSignificantLocations :: "env \<Rightarrow> int \<Rightarrow> AsyncStorage \<Rightarrow> LocationData list" where
  "loadSignificantLocations e date store =
     (if getItem_ok e
      then (case significant_locations store (toISODate e date) of None \<Rightarrow> [] | Some ls \<Rightarrow> ls)
      else [])"


section \<open>Timeline merge\<close>

text \<open>
  The entries the location-history dialog edits (\<open>interface EditableLocationEntry\<close>)
  and the record of a place search they may carry.
\<close>

record PlaceSearchResult =
  place_id :: string
  description :: string
  main_text :: string
  secondary_text :: string

record EditableLocationEntry =
  e_id :: "nat option"
  e_locationName :: string
  e_timestamp :: string
  e_latitude :: real
  e_longitude :: real
  e_icon :: string
  e_order :: int
  e_isEditing :: "bool option"
  e_searchQuery :: "string option"
  e_searchResults :: "PlaceSearchResult list option"
  e_isSearching :: "bool option"

text \<open>
  \<open>getLocationIcon(locationName)\<close>. The icons are emoji; each is written here by its
  code points.
\<close>

definition getLocationIcon :: "string \<Rightarrow> string" where
  "getLocationIcon label =
     (let name = toLowerCase label
      in if includes_str name ''home'' \<or> includes_str name ''house'' then ''U+1F3E0''
         else if includes_str name ''work'' \<or> includes_str name ''office'' then ''U+1F4BC''
         else if includes_str name ''gym'' \<or> includes_str name ''fitness'' then ''U+1F4AA''
         else if includes_str name ''restaurant'' \<or> includes_str name ''cafe''
                 \<or> includes_str name ''food'' then ''U+1F37D U+FE0F''
         else if includes_str name ''park'' \<or> includes_str name ''garden'' then ''U+1F333''
         else if includes_str name ''mall'' \<or> includes_str name ''shopping''
           then ''U+1F6CD U+FE0F''
         else if includes_str name ''hospital'' \<or> includes_str name ''clinic'' then ''U+1F3E5''
         else if includes_str name ''school'' \<or> includes_str name ''university''
           then ''U+1F393''
         else if includes_str name ''airport'' \<or> includes_str name ''station''
           then ''U+2708 U+FE0F''
         else if includes_str name ''beach'' \<or> includes_str name ''coast''
           then ''U+1F3D6 U+FE0F''
         else if includes_str name ''mountain'' \<or> includes_str name ''hike''
           then ''U+26F0 U+FE0F''
         else ''U+1F4CD'')"

text \<open>
  The entry made of a stored location in \<open>handleAddFromLocationHistory\<close>, where \<open>n\<close>
  is the number of entries the dialog holds and \<open>index\<close> the position of the location
  in the history. \<open>location.locationName || x\<close> takes \<open>x\<close> for a missing and for an
  empty name.
\<close>

definition toEditable :: "nat \<Rightarrow> nat \<Rightarrow> LocationData \<Rightarrow> EditableLocationEntry" where
  "toEditable n index location =
     \<lparr>e_id = None,
      e_locationName =
        (case locationName location of
           None \<Rightarrow> ''Unknown Location''
         | Some v \<Rightarrow> if v = [] then ''Unknown Location'' else v),
      e_timestamp = timestamp location,
      e_latitude = latitude location,
      e_longitude = longitude location,
      e_icon = getLocationIcon (case locationName location of None \<Rightarrow> [] | Some v \<Rightarrow> v),
      e_order = int (n + index),
      e_isEditing = None, e_searchQuery = None, e_searchResults = None,
      e_isSearching = None\<rparr>"

text \<open>\<open>xs.map((entry, index) => ({ ...entry, order: index }))\<close>\<close>

definition reindex :: "EditableLocationEntry list \<Rightarrow> EditableLocationEntry list" where
  "reindex es = map (\<lambda>(index, entry). entry\<lparr>e_order := int index\<rparr>) (enumerate 0 es)"

datatype alert = Added nat | NoNewData

text \<open>
  \<open>handleAddFromLocationHistory\<close>, from the location history it has loaded and the
  entries of the dialog to the entries it sets and the alert it shows. The history is
  loaded by a call that catches its own failures, so the handler's own \<open>catch\<close> is
  never entered.
\<close>

definition handleAddFromLocationHistory ::
  "LocationData list \<Rightarrow> EditableLocationEntry list \<Rightarrow> EditableLocationEntry list \<times> alert" where
  "handleAddFromLocationHistory locationHistory entries =
     (let newEntries = map (\<lambda>(index, location). toEditable (length entries) index location)
                         (enumerate 0 locationHistory);
          existingTimestamps = map e_timestamp entries;
          uniqueNewEntries =
            filter (\<lambda>entry. e_timestamp entry \<notin> set existingTimestamps) newEntries
      in if length uniqueNewEntries > 0
         then (reindex (entries @ uniqueNewEntries), Added (length uniqueNewEntries))
         else (entries, NoNewData))"


section \<open>Saving a timeline\<close>

text \<open>
  \<open>interface TimelineEntry\<close> and the table \<open>timeline_entries\<close> of the database, with
  the counter of its \<open>AUTOINCREMENT\<close> key. \<open>DatabaseService.db\<close> is \<open>null\<close> (\<open>None\<close>)
  until the database is opened. Statements on an open database are taken to succeed.
\<close>

record TimelineEntry =
  t_id :: "nat option"
  t_dailyEntryId :: nat
  t_locationName :: string
  t_timestamp :: "string option"
  t_latitude :: "real option"
  t_longitude :: "real option"
  t_icon :: "string option"
  t_order :: int

record Database =
  timeline_rows :: "TimelineEntry list"
  last_rowid :: nat

type_synonym DatabaseService = "Database option"

datatype error = DatabaseNotInitialized | MissingRequiredFields

text \<open>\<open>x || null\<close> and \<open>x || undefined\<close>: an empty string and the number 0 are dropped.\<close>

definition or_null_string :: "string option \<Rightarrow> string option" where
  "or_null_string x = (case x of None \<Rightarrow> None | Some v \<Rightarrow> if v = [] then None else Some v)"

definition or_null_number :: "real option \<Rightarrow> real option" where
  "or_null_number x = (case x of None \<Rightarrow> None | Some v \<Rightarrow> if v = 0 then None else Some v)"

definition createTimelineEntry ::
  "TimelineEntry \<Rightarrow> DatabaseService \<Rightarrow> error + nat \<times> DatabaseService" where
  "createTimelineEntry entry svc =
     (case svc of
        None \<Rightarrow> Inl DatabaseNotInitialized
      | Some d \<Rightarrow>
          let rowid = last_rowid d + 1;
              row = \<lparr>t_id = Some rowid,
                     t_dailyEntryId = t_dailyEntryId entry,
                     t_locationName = t_locationName entry,
                     t_timestamp = or_null_string (t_timestamp entry),
                     t_latitude = or_null_number (t_latitude entry),
                     t_longitude = or_null_number (t_longitude entry),
                     t_icon = or_null_string (t_icon entry),
                     t_order = t_order entry\<rparr>
          in Inr (rowid, Some (d\<lparr>timeline_rows := timeline_rows d @ [row], last_rowid := rowid\<rparr>)))"

definition deleteTimelineEntry :: "nat \<Rightarrow> DatabaseService \<Rightarrow> error + DatabaseService" where
  "deleteTimelineEntry i svc =
     (case svc of
        None \<Rightarrow> Inl DatabaseNotInitialized
      | Some d \<Rightarrow> Inr (Some (d\<lparr>timeline_rows := filter (\<lambda>r. t_id r \<noteq> Some i) (timeline_rows d)\<rparr>)))"

text \<open>
  \<open>interface DailyEntry\<close>. The entry under edit was read from the database, and
  \<open>handleSaveTimeline\<close> reads its key as \<open>currentEntry.id!\<close>.
\<close>

record DailyEntry =
  d_id :: nat
  d_date :: string
  d_title :: string
  d_description :: "string option"
  d_createdAt :: string
  d_updatedAt :: string

text \<open>
  The two loops of \<open>handleSaveTimeline\<close>. A thrown error leaves the loop; the
  database is then as the statements before the throw left it.
\<close>

fun delete_existing :: "TimelineEntry list \<Rightarrow> DatabaseService \<Rightarrow> DatabaseService \<times> error option" where
  "delete_existing [] db = (db, None)"
| "delete_existing (existingEntry # rest) db =
     (case t_id existingEntry of
        None \<Rightarrow> delete_existing rest db
      | Some i \<Rightarrow>
          if i = 0 then delete_existing rest db
          else (case deleteTimelineEntry i db of
                  Inl err \<Rightarrow> (db, Some err)
                | Inr db' \<Rightarrow> delete_existing rest db'))"

definition missing_required_fields :: "TimelineEntry \<Rightarrow> bool" where
  "missing_required_fields newEntry =
     (t_locationName newEntry = [] \<or> or_null_string (t_timestamp newEntry) = None)"

fun create_new :: "DailyEntry \<Rightarrow> TimelineEntry list \<Rightarrow> DatabaseService \<Rightarrow> DatabaseService \<times> error option" where
  "create_new currentEntry [] db = (db, None)"
| "create_new currentEntry (newEntry # rest) db =
     (if missing_required_fields newEntry then (db, Some MissingRequiredFields)
      else
        let timelineEntry =
              \<lparr>t_id = None,
               t_dailyEntryId = d_id currentEntry,
               t_locationName = t_locationName newEntry,
               t_timestamp = t_timestamp newEntry,
               t_latitude = or_null_number (t_latitude newEntry),
               t_longitude = or_null_number (t_longitude newEntry),
               t_icon = or_null_string (t_icon newEntry),
               t_order = t_order newEntry\<rparr>
        in case createTimelineEntry timelineEntry db of
             Inl err \<Rightarrow> (db, Some err)
           | Inr (rowid, db') \<Rightarrow> create_new currentEntry rest db')"

datatype save_result = NoCurrentEntry | Saved | SaveFailed error

text \<open>
  \<open>handleSaveTimeline(entries)\<close>, from the entry under edit, the timelines the screen
  holds per daily entry, the entries to save and the database, to the database and
  what the user is told. The refresh of the screen after a save only reads.
\<close>

definition handleSaveTimeline ::
  "DailyEntry option \<Rightarrow> (nat \<Rightarrow> TimelineEntry list option) \<Rightarrow> TimelineEntry list
     \<Rightarrow> DatabaseService \<Rightarrow> DatabaseService \<times> save_result" where
  "handleSaveTimeline editingEntry timelineEntries entries db =
     (case editingEntry of
        None \<Rightarrow> (db, NoCurrentEntry)
      | Some currentEntry \<Rightarrow>
          let existingEntries =
                (case timelineEntries (d_id currentEntry) of None \<Rightarrow> [] | Some es \<Rightarrow> es)
          in case delete_existing existingEntries db of
               (db1, Some err) \<Rightarrow> (db1, SaveFailed err)
             | (db1, None) \<Rightarrow>
                 (case create_new currentEntry entries db1 of
                    (db2, Some err) \<Rightarrow> (db2, SaveFailed err)
                  | (db2, None) \<Rightarrow> (db2, Saved)))"

text \<open>
  For stating what a save leaves in the table: a row survives the deletions when the
  screen holds no entry with its key (entries without a key, or with key 0, delete
  nothing); \<open>stored_row\<close> is the row written for an entry, and \<open>stored_rows\<close> the rows
  written for a list of entries after key \<open>n\<close>.
\<close>

definition survives :: "TimelineEntry list \<Rightarrow> TimelineEntry \<Rightarrow> bool" where
  "survives existingEntries row =
     (t_id row = None \<or> t_id row = Some 0 \<or> t_id row \<notin> t_id ` set existingEntries)"

definition stored_row :: "DailyEntry \<Rightarrow> nat \<Rightarrow> TimelineEntry \<Rightarrow> TimelineEntry" where
  "stored_row currentEntry rowid newEntry =
     \<lparr>t_id = Some rowid,
      t_dailyEntryId = d_id currentEntry,
      t_locationName = t_locationName newEntry,
      t_timestamp = or_null_string (t_timestamp newEntry),
      t_latitude = or_null_number (t_latitude newEntry),
      t_longitude = or_null_number (t_longitude newEntry),
      t_icon = or_null_string (t_icon newEntry),
      t_order = t_order newEntry\<rparr>"

fun stored_rows :: "DailyEntry \<Rightarrow> nat \<Rightarrow> TimelineEntry list \<Rightarrow> TimelineEntry list" where
  "stored_rows currentEntry n [] = []"
| "stored_rows currentEntry n (x # xs) =
     stored_row currentEntry (n + 1) x # stored_rows currentEntry (n + 1) xs"


section \<open>Example values\<close>

text \<open>
  Concrete environments, fixes and stored values, for the instances at which the
  theorems below are evaluated. The example environment answers every lookup with the
  same address of the device geocoder; its two date functions are given on the
  instants the examples use. No example reaches the coordinate string, so the number
  formatting of the example environment is never consulted.
\<close>

definition example_parseDate :: "string \<Rightarrow> int option" where
  "example_parseDate s =
     (if s = ''2024-01-01T08:00:00.000Z'' then Some 1704096000000
      else if s = ''2024-01-02T09:00:00.000Z'' then Some 1704186000000
      else None)"

definition example_toISODate :: "int \<Rightarrow> string" where
  "example_toISODate t =
     (if 1704067200000 \<le> t \<and> t < 1704153600000 then ''2024-01-01''
      else if 1704153600000 \<le> t \<and> t < 1704240000000 then ''2024-01-02''
      else ''1970-01-01'')"

definition example_env :: "int \<Rightarrow> string \<Rightarrow> env" where
  "example_env t place =
     \<lparr>clock = t, clock_late = t + 1, getItem_ok = True, setItem_ok = True,
      reverseGeocodeAsync = (\<lambda>lat lon. Resolves
        [\<lparr>geo_name = Some place, geo_street = Some ''Main St'', geo_district = None,
          geo_city = Some ''Springfield'', geo_region = None\<rparr>]),
      fetch_geocode = (\<lambda>lat lon. Rejects),
      toFixed4 = (\<lambda>x. ''0.0000''),
      parseDate = example_parseDate,
      toISODate = example_toISODate\<rparr>"

definition example_fix :: "real \<Rightarrow> string \<Rightarrow> LocationData" where
  "example_fix lat ts = \<lparr>latitude = lat, longitude = 0, timestamp = ts, locationName = None\<rparr>"

definition example_stay :: LocationData where
  "example_stay = \<lparr>latitude = 0, longitude = 0, timestamp = ''2024-01-01T08:00:00.000Z'',
                    locationName = Some ''Cafe, Main St, Springfield''\<rparr>"

definition empty_storage :: AsyncStorage where
  "empty_storage = \<lparr>last_significant_location = None, significant_locations = (\<lambda>k. None)\<rparr>"


definition example_storage :: AsyncStorage where
  "example_storage =
     \<lparr>last_significant_location = Some example_stay,
      significant_locations =
        [''2024-01-01'' \<mapsto> [example_stay], ''2024-01-02'' \<mapsto> [example_stay]]\<rparr>"


definition example_env_blank_remote :: env where
  "example_env_blank_remote =
     (example_env 400000 ''Cafe'')
       \<lparr>reverseGeocodeAsync := (\<lambda>lat lon. Resolves []),
        fetch_geocode := (\<lambda>lat lon. Resolves
          \<lparr>status = ''OK'', results = [\<lparr>formatted_address = []\<rparr>]\<rparr>)\<rparr>"

definition example_row :: TimelineEntry where
  "example_row =
     \<lparr>t_id = Some 4, t_dailyEntryId = 3, t_locationName = ''Home'',
      t_timestamp = Some ''2024-01-01T08:00:00.000Z'', t_latitude = None, t_longitude = None,
      t_icon = None, t_order = 0\<rparr>"

definition example_daily :: DailyEntry where
  "example_daily =
     \<lparr>d_id = 3, d_date = ''2024-01-01'', d_title = ''Monday'', d_description = None,
      d_createdAt = ''2024-01-01T08:00:00.000Z'', d_updatedAt = ''2024-01-01T08:00:00.000Z''\<rparr>"

definition example_new_entry :: "string \<Rightarrow> TimelineEntry" where
  "example_new_entry label =
     \<lparr>t_id = None, t_dailyEntryId = 0, t_locationName = label,
      t_timestamp = Some ''2024-01-02T09:00:00.000Z'', t_latitude = None, t_longitude = None,
      t_icon = None, t_order = 0\<rparr>"


section \<open>Properties of the place-change comparison\<close>

lemma toLowerCase_char_comma: "(toLowerCase_char c = CHR '','') = (c = CHR '','')"
proof -
  have comma: "of_char CHR '','' = (44::nat)"
    by simp
  have inj: "\<And>d. (d = CHR '','') = (of_char d = (44::nat))"
    using comma of_char_eq_iff[where ?'a = nat] by metis
  show ?thesis
    unfolding inj toLowerCase_char_def Let_def by auto
qed

lemma split_nonempty: "split sep s \<noteq> []"
  by (induction s) (auto split: list.splits)

lemma split_map:
  assumes "\<And>c. (f c = sep) = (c = sep)"
  shows "split sep (map f s) = map (map f) (split sep s)"
proof (induction s)
  case Nil
  show ?case by simp
next
  case (Cons c cs)
  show ?case
  proof (cases "c = sep")
    case True
    then show ?thesis using Cons assms by simp
  next
    case False
    then have "f c \<noteq> sep" using assms by simp
    with False Cons show ?thesis
      by (cases "split sep cs") (simp_all add: split_nonempty)
  qed
qed

lemma label_parts_code:
  "map trim (split CHR '','' (toLowerCase label)) = label_parts label"
  unfolding toLowerCase_def label_parts_def
  by (simp add: split_map [of toLowerCase_char, OF toLowerCase_char_comma] comp_def)

text \<open>
  C5. For every pair of labels, the comparison reports "unchanged" exactly when the
  labels are the same place in the sense of the specification (both non-empty, part 0
  equal, parts 1 and 2 equal wherever both sides have them); an empty label on either
  side is always reported as a change.
\<close>

theorem hasLocationNameChanged_iff_not_same_place:
  "hasLocationNameChanged a b = (\<not> same_place a b)
   \<and> hasLocationNameChanged [] b \<and> hasLocationNameChanged a []"
proof -
  have "hasLocationNameChanged a b = (\<not> same_place a b)"
    unfolding hasLocationNameChanged_def same_place_def Let_def label_parts_code
    by (auto simp: not_less not_le)
  moreover have "hasLocationNameChanged [] b" "hasLocationNameChanged a []"
    by (simp_all add: hasLocationNameChanged_def)
  ultimately show ?thesis by simp
qed


section \<open>Properties of the geodesic distance\<close>

lemma calculateDistance_same: "calculateDistance lat lon lat lon = 0"
  by (simp add: calculateDistance_def atan2_def)

lemma sin_half_flip:
  "sin ((x - y) * pi / 180 / 2) = - sin ((y - x) * pi / 180 / 2)" for x y :: real
proof -
  have "(x - y) * pi / 180 / 2 = - ((y - x) * pi / 180 / 2)"
    by (simp add: field_simps)
  then show ?thesis
    by (simp only: sin_minus)
qed

lemma haversine_square_flip:
  "sin ((x - y) * pi / 180 / 2) * sin ((x - y) * pi / 180 / 2)
     = sin ((y - x) * pi / 180 / 2) * sin ((y - x) * pi / 180 / 2)" for x y :: real
  by (simp only: sin_half_flip [of x y] minus_mult_minus)

lemma calculateDistance_sym:
  "calculateDistance lat1 lon1 lat2 lon2 = calculateDistance lat2 lon2 lat1 lon1"
proof -
  have "sin ((lat2 - lat1) * pi / 180 / 2) * sin ((lat2 - lat1) * pi / 180 / 2) +
          cos (lat1 * pi / 180) * cos (lat2 * pi / 180) *
          sin ((lon2 - lon1) * pi / 180 / 2) * sin ((lon2 - lon1) * pi / 180 / 2)
        = sin ((lat1 - lat2) * pi / 180 / 2) * sin ((lat1 - lat2) * pi / 180 / 2) +
          cos (lat2 * pi / 180) * cos (lat1 * pi / 180) *
          sin ((lon1 - lon2) * pi / 180 / 2) * sin ((lon1 - lon2) * pi / 180 / 2)"
    (is "?a = ?b")
  proof -
    have "?a = sin ((lat2 - lat1) * pi / 180 / 2) * sin ((lat2 - lat1) * pi / 180 / 2) +
          cos (lat2 * pi / 180) * cos (lat1 * pi / 180) *
          (sin ((lon2 - lon1) * pi / 180 / 2) * sin ((lon2 - lon1) * pi / 180 / 2))"
      by (simp only: mult.assoc mult.left_commute mult.commute)
    also have "\<dots> = sin ((lat1 - lat2) * pi / 180 / 2) * sin ((lat1 - lat2) * pi / 180 / 2) +
          cos (lat2 * pi / 180) * cos (lat1 * pi / 180) *
          (sin ((lon1 - lon2) * pi / 180 / 2) * sin ((lon1 - lon2) * pi / 180 / 2))"
      by (simp only: haversine_square_flip [of lat2 lat1] haversine_square_flip [of lon2 lon1])
    also have "\<dots> = ?b"
      by (simp only: mult.assoc)
    finally show ?thesis .
  qed
  then show ?thesis
    unfolding calculateDistance_def Let_def by (simp only:)
qed







section \<open>Properties of the stay detector\<close>

lemma hasLocationNameChanged_same: "a \<noteq> [] \<Longrightarrow> \<not> hasLocationNameChanged a a"
  by (simp add: hasLocationNameChanged_def)

lemma example_env_simps:
  "clock (example_env t place) = t"
  "clock_late (example_env t place) = t + 1"
  "getItem_ok (example_env t place)"
  "setItem_ok (example_env t place)"
  by (simp_all add: example_env_def)

lemma example_env_dates:
  "parseDate (example_env t place) = example_parseDate"
  "toISODate (example_env t place) = example_toISODate"
  by (simp_all add: example_env_def)

lemma example_getLocationName:
  "getLocationName (example_env t place) lat lon =
     (if place = [] then ''Main St, Springfield'' else place @ '', Main St, Springfield'')"
  by (simp add: getLocationName_def example_env_def device_address_def push_if_def)

lemma example_fix_simps:
  "latitude (example_fix lat ts) = lat"
  "longitude (example_fix lat ts) = 0"
  by (simp_all add: example_fix_def)

lemma step_without_baseline:
  assumes "lastSignificantLocation svc = None" "last_significant_location store = None"
  shows "checkForSignificantLocationChange e fix (svc, store) =
           (False, fix,
            svc\<lparr>lastLocationUpdate := Some fix, stationaryStartTime := Some (clock e)\<rparr>, store)"
  using assms
  by (simp add: checkForSignificantLocationChange_def loadLastSignificantLocation_def)

lemma run_without_baseline:
  assumes "lastSignificantLocation svc = None" "last_significant_location store = None"
  shows "fst (run_detector steps (svc, store)) = replicate (length steps) False
         \<and> lastSignificantLocation (fst (snd (run_detector steps (svc, store)))) = None
         \<and> snd (snd (run_detector steps (svc, store))) = store"
  using assms
proof (induction steps arbitrary: svc)
  case Nil
  then show ?case by simp
next
  case (Cons p rest)
  obtain e loc where p: "p = (e, loc)" by (cases p)
  let ?svc = "svc\<lparr>lastLocationUpdate := Some loc, stationaryStartTime := Some (clock e)\<rparr>"
  have step: "checkForSignificantLocationChange e loc (svc, store) = (False, loc, ?svc, store)"
    using Cons.prems by (rule step_without_baseline)
  have "lastSignificantLocation ?svc = None"
    using Cons.prems by simp
  from Cons.IH [OF this Cons.prems(2)] show ?case
    by (simp add: p step Let_def)
qed

text \<open>
  C1. The claim: when no last significant location is known, the first candidate is
  turned down and adopted as the baseline, so that a later stationary window with a
  different label is confirmed. The detector turns the fix down but adopts nothing:
  started from a new service over an empty storage, it answers \<open>False\<close> to every fix of
  every sequence, its last significant location stays unset, and nothing is written.
\<close>

theorem fresh_detector_never_confirms:
  "fst (run_detector steps (LocationService_new, empty_storage)) = replicate (length steps) False
   \<and> lastSignificantLocation (fst (snd (run_detector steps (LocationService_new, empty_storage)))) = None
   \<and> snd (snd (run_detector steps (LocationService_new, empty_storage))) = empty_storage"
  by (rule run_without_baseline) (simp_all add: LocationService_new_def empty_storage_def)



lemma confirmed_candidate:
  assumes "start \<noteq> 0"
    and "calculateDistance (latitude u) (longitude u) (latitude new) (longitude new)
           \<le> LOCATION_RADIUS"
    and "clock e - start \<ge> STATIONARY_THRESHOLD"
    and "hasLocationNameChanged (case locationName s of None \<Rightarrow> [] | Some n \<Rightarrow> n)
           (getLocationName e (latitude new) (longitude new))"
  shows "checkForSignificantLocationChange e new
           (\<lparr>lastSignificantLocation = Some s, lastLocationUpdate = Some u,
             stationaryStartTime = Some start\<rparr>, store)
         = (True,
            new\<lparr>locationName := Some (getLocationName e (latitude new) (longitude new))\<rparr>,
            \<lparr>lastSignificantLocation =
               Some (new\<lparr>locationName :=
                             Some (getLocationName e (latitude new) (longitude new))\<rparr>),
             lastLocationUpdate = Some u,
             stationaryStartTime = Some (clock_late e)\<rparr>,
            saveLastSignificantLocation e
              (new\<lparr>locationName := Some (getLocationName e (latitude new) (longitude new))\<rparr>)
              store)"
  using assms
  by (simp add: checkForSignificantLocationChange_def Let_def)

text \<open>
  C3 (as amended). When a ripe candidate (within the radius, stationary for at least
  five minutes) gets a label that is the same place as the last significant location,
  the call returns \<open>False\<close>, so that no stay is stored, and leaves the service and the
  storage exactly as they were: the stationary clock is not reset, and the next fix
  there is classified again.
\<close>

theorem rejected_candidate_leaves_state:
  assumes "start \<noteq> 0"
    and "calculateDistance (latitude u) (longitude u) (latitude new) (longitude new)
           \<le> LOCATION_RADIUS"
    and "clock e - start \<ge> STATIONARY_THRESHOLD"
    and "\<not> hasLocationNameChanged (case locationName s of None \<Rightarrow> [] | Some n \<Rightarrow> n)
             (getLocationName e (latitude new) (longitude new))"
  shows "checkForSignificantLocationChange e new
           (\<lparr>lastSignificantLocation = Some s, lastLocationUpdate = Some u,
             stationaryStartTime = Some start\<rparr>, store)
         = (False,
            new\<lparr>locationName := Some (getLocationName e (latitude new) (longitude new))\<rparr>,
            \<lparr>lastSignificantLocation = Some s, lastLocationUpdate = Some u,
             stationaryStartTime = Some start\<rparr>, store)"
  using assms
  by (simp add: checkForSignificantLocationChange_def Let_def)

theorem rejected_candidate_leaves_state_witness:
  "(1000::int) \<noteq> 0
   \<and> calculateDistance (latitude (example_fix 0 ''2024-01-02T09:00:00.000Z''))
        (longitude (example_fix 0 ''2024-01-02T09:00:00.000Z''))
        (latitude (example_fix 0 ''2024-01-02T09:06:39.000Z''))
        (longitude (example_fix 0 ''2024-01-02T09:06:39.000Z'')) \<le> LOCATION_RADIUS
   \<and> clock (example_env 400000 ''Cafe'') - 1000 \<ge> STATIONARY_THRESHOLD
   \<and> \<not> hasLocationNameChanged (case locationName example_stay of None \<Rightarrow> [] | Some n \<Rightarrow> n)
         (getLocationName (example_env 400000 ''Cafe'') 0 0)
   \<and> checkForSignificantLocationChange (example_env 400000 ''Cafe'')
        (example_fix 0 ''2024-01-02T09:06:39.000Z'')
        (\<lparr>lastSignificantLocation = Some example_stay,
          lastLocationUpdate = Some (example_fix 0 ''2024-01-02T09:00:00.000Z''),
          stationaryStartTime = Some 1000\<rparr>, empty_storage)
      = (False,
         (example_fix 0 ''2024-01-02T09:06:39.000Z'')
           \<lparr>locationName := Some ''Cafe, Main St, Springfield''\<rparr>,
         \<lparr>lastSignificantLocation = Some example_stay,
          lastLocationUpdate = Some (example_fix 0 ''2024-01-02T09:00:00.000Z''),
          stationaryStartTime = Some 1000\<rparr>, empty_storage)"
proof -
  have h1: "(1000::int) \<noteq> 0" by simp
  have h2: "calculateDistance (latitude (example_fix 0 ''2024-01-02T09:00:00.000Z''))
        (longitude (example_fix 0 ''2024-01-02T09:00:00.000Z''))
        (latitude (example_fix 0 ''2024-01-02T09:06:39.000Z''))
        (longitude (example_fix 0 ''2024-01-02T09:06:39.000Z'')) \<le> LOCATION_RADIUS"
    by (simp add: example_fix_simps calculateDistance_same LOCATION_RADIUS_def)
  have h3: "clock (example_env 400000 ''Cafe'') - 1000 \<ge> STATIONARY_THRESHOLD"
    by (simp add: example_env_simps STATIONARY_THRESHOLD_def)
  have h4: "\<not> hasLocationNameChanged (case locationName example_stay of None \<Rightarrow> [] | Some n \<Rightarrow> n)
         (getLocationName (example_env 400000 ''Cafe'')
            (latitude (example_fix 0 ''2024-01-02T09:06:39.000Z''))
            (longitude (example_fix 0 ''2024-01-02T09:06:39.000Z'')))"
    by (simp add: example_getLocationName example_stay_def hasLocationNameChanged_same)
  from rejected_candidate_leaves_state [OF h1 h2 h3 h4, of empty_storage] h1 h2 h3 h4
  show ?thesis
    by (simp add: example_fix_simps example_getLocationName)
qed

text \<open>
  Against C3 as stated: a ripe candidate at the place of the last significant location
  is classified and turned down, the stationary clock keeps its old value, and the fix
  after it is classified again.
\<close>

theorem rejected_candidate_keeps_clock:
  "(let s0 = (\<lparr>lastSignificantLocation = Some example_stay,
               lastLocationUpdate = Some (example_fix 0 ''2024-01-02T09:00:00.000Z''),
               stationaryStartTime = Some 1000\<rparr>, empty_storage);
        r1 = checkForSignificantLocationChange (example_env 400000 ''Cafe'')
               (example_fix 0 ''2024-01-02T09:06:39.000Z'') s0;
        r2 = checkForSignificantLocationChange (example_env 400500 ''Cafe'')
               (example_fix 0 ''2024-01-02T09:06:40.000Z'') (state_of r1)
    in clock (example_env 400000 ''Cafe'') - 1000 \<ge> STATIONARY_THRESHOLD
       \<and> \<not> flag_of r1
       \<and> locationName (fix_of r1) = Some ''Cafe, Main St, Springfield''
       \<and> stationaryStartTime (fst (state_of r1)) = Some 1000
       \<and> stationaryStartTime (fst (state_of r1)) \<noteq> Some (clock (example_env 400000 ''Cafe''))
       \<and> \<not> flag_of r2
       \<and> locationName (fix_of r2) = Some ''Cafe, Main St, Springfield'')"
proof -
  have same: "\<not> hasLocationNameChanged ''Cafe, Main St, Springfield'' ''Cafe, Main St, Springfield''"
    by (rule hasLocationNameChanged_same) simp
  show ?thesis
    using same
    by (simp add: checkForSignificantLocationChange_def Let_def state_of_def flag_of_def
        fix_of_def example_env_simps example_fix_simps example_getLocationName
        calculateDistance_same LOCATION_RADIUS_def STATIONARY_THRESHOLD_def example_stay_def)
qed

text \<open>
  C4 (as amended). Only the last significant location is written to the storage. A new
  service that loads what the previous one saved recovers that location (when the
  write and the read succeed); its reference fix and its stationary clock start unset.
\<close>

theorem restart_keeps_only_last_significant:
  "loadLastSignificantLocation e2 (saveLastSignificantLocation e1 loc store) LocationService_new
   = \<lparr>lastSignificantLocation =
        (if getItem_ok e2
         then (if setItem_ok e1 then Some loc else last_significant_location store)
         else None),
      lastLocationUpdate = None, stationaryStartTime = None\<rparr>"
  by (simp add: loadLastSignificantLocation_def saveLastSignificantLocation_def
      LocationService_new_def split: option.splits)

text \<open>
  Against C4 as stated: a service confirms a stay, which saves it; a new service over
  the same storage recovers the stay, but neither the reference fix nor the stationary
  clock of the old one.
\<close>

theorem restart_loses_stationary_timing:
  "(let s0 = (\<lparr>lastSignificantLocation = Some example_stay,
               lastLocationUpdate = Some (example_fix 0 ''2024-01-02T09:00:00.000Z''),
               stationaryStartTime = Some 1000\<rparr>, empty_storage);
        r1 = checkForSignificantLocationChange (example_env 400000 ''Library'')
               (example_fix 0 ''2024-01-02T09:06:39.000Z'') s0;
        restored = loadLastSignificantLocation (example_env 400100 ''Library'')
                     (snd (state_of r1)) LocationService_new
    in flag_of r1
       \<and> lastSignificantLocation restored = lastSignificantLocation (fst (state_of r1))
       \<and> lastLocationUpdate (fst (state_of r1))
           = Some (example_fix 0 ''2024-01-02T09:00:00.000Z'')
       \<and> lastLocationUpdate restored = None
       \<and> stationaryStartTime (fst (state_of r1)) = Some 400001
       \<and> stationaryStartTime restored = None
       \<and> restored \<noteq> fst (state_of r1))"
proof -
  have changed: "hasLocationNameChanged ''Cafe, Main St, Springfield'' ''Library, Main St, Springfield''"
    by code_simp
  show ?thesis
    using changed
    by (simp add: checkForSignificantLocationChange_def Let_def state_of_def flag_of_def
        example_env_simps example_fix_simps example_getLocationName
        calculateDistance_same LOCATION_RADIUS_def STATIONARY_THRESHOLD_def example_stay_def
        saveLastSignificantLocation_def loadLastSignificantLocation_def
        LocationService_new_def empty_storage_def)
qed


section \<open>Properties of the daily store\<close>

text \<open>
  C6. After an append whose read and write of the storage succeed, every stay in the
  list of the day appended to has a valid timestamp less than 24 hours before the
  clock of the append, so no older stay is in a load of that day; the lists of all
  other days and the last significant location are as they were.
\<close>

theorem append_keeps_last_24_hours:
  assumes "getItem_ok e" and "setItem_ok e"
  shows "(toISODate e' d = toISODate e (clock e) \<longrightarrow>
            list_all (\<lambda>loc. \<exists>t. parseDate e (timestamp loc) = Some t
                             \<and> clock_late e - t < 24 * 60 * 60 * 1000)
              (loadSignificantLocations e' d (saveSignificantLocation e location store)))
         \<and> significant_locations (saveSignificantLocation e location store)
             (toISODate e (clock e)) \<noteq> None
         \<and> (day \<noteq> toISODate e (clock e) \<longrightarrow>
               significant_locations (saveSignificantLocation e location store) day
                 = significant_locations store day)
         \<and> last_significant_location (saveSignificantLocation e location store)
             = last_significant_location store"
proof -
  let ?today = "toISODate e (clock e)"
  let ?fresh = "\<lambda>loc. case parseDate e (timestamp loc) of
                   None \<Rightarrow> False | Some t \<Rightarrow> clock_late e - 86400000 < t"
  let ?old = "case significant_locations store ?today of None \<Rightarrow> [] | Some ls \<Rightarrow> ls"
  have saved: "saveSignificantLocation e location store =
      store\<lparr>significant_locations :=
        (significant_locations store)(?today \<mapsto> filter ?fresh (?old @ [location]))\<rparr>"
    using assms by (simp add: saveSignificantLocation_def Let_def)
  have fresh: "list_all (\<lambda>loc. \<exists>t. parseDate e (timestamp loc) = Some t
                            \<and> clock_late e - t < 24 * 60 * 60 * 1000)
                 (filter ?fresh (?old @ [location]))"
    by (auto simp: list_all_iff split: option.splits)
  have loaded: "toISODate e' d = ?today \<longrightarrow>
       list_all (\<lambda>loc. \<exists>t. parseDate e (timestamp loc) = Some t
                            \<and> clock_late e - t < 24 * 60 * 60 * 1000)
           (loadSignificantLocations e' d (saveSignificantLocation e location store))"
    using fresh unfolding saved by (simp add: loadSignificantLocations_def)
  have today: "significant_locations (saveSignificantLocation e location store) ?today \<noteq> None"
    unfolding saved by simp
  have others: "day \<noteq> ?today \<longrightarrow>
           significant_locations (saveSignificantLocation e location store) day
             = significant_locations store day"
    unfolding saved by simp
  have last: "last_significant_location (saveSignificantLocation e location store)
             = last_significant_location store"
    unfolding saved by simp
  from loaded today others last show ?thesis by blast
qed

theorem append_keeps_last_24_hours_witness:
  "getItem_ok (example_env 1704186000000 ''Cafe'')
   \<and> setItem_ok (example_env 1704186000000 ''Cafe'')
   \<and> toISODate (example_env 1704186000000 ''Cafe'') (clock (example_env 1704186000000 ''Cafe''))
       = ''2024-01-02''
   \<and> list_all (\<lambda>loc. \<exists>t. parseDate (example_env 1704186000000 ''Cafe'') (timestamp loc) = Some t
                      \<and> clock_late (example_env 1704186000000 ''Cafe'') - t < 24 * 60 * 60 * 1000)
        (loadSignificantLocations (example_env 1704186000000 ''Cafe'') 1704186000000
           (saveSignificantLocation (example_env 1704186000000 ''Cafe'')
              (example_fix 0 ''2024-01-02T09:00:00.000Z'') example_storage))
   \<and> loadSignificantLocations (example_env 1704186000000 ''Cafe'') 1704186000000
        (saveSignificantLocation (example_env 1704186000000 ''Cafe'')
           (example_fix 0 ''2024-01-02T09:00:00.000Z'') example_storage)
       = [example_fix 0 ''2024-01-02T09:00:00.000Z'']
   \<and> significant_locations
        (saveSignificantLocation (example_env 1704186000000 ''Cafe'')
           (example_fix 0 ''2024-01-02T09:00:00.000Z'') example_storage) ''2024-01-01''
       = Some [example_stay]"
proof -
  let ?e = "example_env 1704186000000 ''Cafe''"
  have h1: "getItem_ok ?e" and h2: "setItem_ok ?e"
    by (simp_all add: example_env_simps)
  have day: "toISODate ?e (clock ?e) = ''2024-01-02''"
    by (simp add: example_env_simps example_env_dates example_toISODate_def)
  have other: "''2024-01-01'' \<noteq> toISODate ?e (clock ?e)"
    unfolding day by simp
  have parse: "parseDate ?e ''2024-01-01T08:00:00.000Z'' = Some 1704096000000"
      "parseDate ?e ''2024-01-02T09:00:00.000Z'' = Some 1704186000000"
    by (simp_all add: example_env_dates example_parseDate_def)
  have result: "loadSignificantLocations ?e 1704186000000
        (saveSignificantLocation ?e (example_fix 0 ''2024-01-02T09:00:00.000Z'') example_storage)
       = [example_fix 0 ''2024-01-02T09:00:00.000Z'']"
    using day parse
    by (simp add: loadSignificantLocations_def saveSignificantLocation_def Let_def
        example_env_simps example_storage_def example_stay_def example_fix_def)
  have same_day: "toISODate ?e 1704186000000 = toISODate ?e (clock ?e)"
    by (simp add: example_env_simps)
  have before: "significant_locations example_storage ''2024-01-01'' = Some [example_stay]"
    by (simp add: example_storage_def)
  note inst = append_keeps_last_24_hours [OF h1 h2, of ?e 1704186000000
      "example_fix 0 ''2024-01-02T09:00:00.000Z''" example_storage "''2024-01-01''"]
  from inst same_day have fresh: "list_all
        (\<lambda>loc. \<exists>t. parseDate ?e (timestamp loc) = Some t
                 \<and> clock_late ?e - t < 24 * 60 * 60 * 1000)
        (loadSignificantLocations ?e 1704186000000
           (saveSignificantLocation ?e (example_fix 0 ''2024-01-02T09:00:00.000Z'')
              example_storage))"
    by blast
  from inst other before have kept: "significant_locations
        (saveSignificantLocation ?e (example_fix 0 ''2024-01-02T09:00:00.000Z'')
           example_storage) ''2024-01-01'' = Some [example_stay]"
    by metis
  from h1 h2 day fresh result kept show ?thesis
    by blast
qed

lemma failed_append_changes_nothing:
  "\<not> (getItem_ok e \<and> setItem_ok e) \<Longrightarrow> saveSignificantLocation e location store = store"
  by (auto simp: saveSignificantLocation_def Let_def)


section \<open>Properties of the timeline merge\<close>




lemma reindex_from_content:
  "map (e_order_update (\<lambda>_. 0)) (map (\<lambda>(index, entry). entry\<lparr>e_order := int index\<rparr>) (enumerate n es))
     = map (e_order_update (\<lambda>_. 0)) es"
  by (induction es arbitrary: n) simp_all

lemma reindex_content:
  "map (e_order_update (\<lambda>_. 0)) (reindex es) = map (e_order_update (\<lambda>_. 0)) es"
  unfolding reindex_def by (rule reindex_from_content)

lemma reindex_timestamps: "map e_timestamp (reindex es) = map e_timestamp es"
proof -
  have "map e_timestamp (map (e_order_update (\<lambda>_. 0)) (reindex es))
          = map e_timestamp (map (e_order_update (\<lambda>_. 0)) es)"
    by (simp only: reindex_content)
  then show ?thesis by (simp add: comp_def)
qed

lemma order_erased_update:
  assumes "x\<lparr>e_order := 0\<rparr> = y\<lparr>e_order := 0\<rparr>"
  shows "x\<lparr>e_order := i\<rparr> = y\<lparr>e_order := i\<rparr>"
proof -
  have "(x\<lparr>e_order := 0\<rparr>)\<lparr>e_order := i\<rparr> = (y\<lparr>e_order := 0\<rparr>)\<lparr>e_order := i\<rparr>"
    using assms by simp
  then show ?thesis by simp
qed

lemma reindex_from_cong:
  assumes "map (e_order_update (\<lambda>_. 0)) xs = map (e_order_update (\<lambda>_. 0)) ys"
  shows "map (\<lambda>(index, entry). entry\<lparr>e_order := int index\<rparr>) (enumerate n xs)
       = map (\<lambda>(index, entry). entry\<lparr>e_order := int index\<rparr>) (enumerate n ys)"
  using assms
proof (induction xs arbitrary: ys n)
  case Nil
  then show ?case by simp
next
  case (Cons x xs)
  then obtain y ys' where ys: "ys = y # ys'" by (cases ys) auto
  with Cons.prems have hd: "x\<lparr>e_order := 0\<rparr> = y\<lparr>e_order := 0\<rparr>"
    and tl: "map (e_order_update (\<lambda>_. 0)) xs = map (e_order_update (\<lambda>_. 0)) ys'"
    by simp_all
  from Cons.IH [OF tl, of "Suc n"] order_erased_update [OF hd, of "int n"]
  show ?case by (simp add: ys)
qed

lemma reindex_cong:
  "map (e_order_update (\<lambda>_. 0)) xs = map (e_order_update (\<lambda>_. 0)) ys \<Longrightarrow> reindex xs = reindex ys"
  unfolding reindex_def by (rule reindex_from_cong)

lemma toEditable_order_erased: "(toEditable n i l)\<lparr>e_order := 0\<rparr> = toEditable 0 0 l"
  by (simp add: toEditable_def)

lemma toEditable_timestamp: "e_timestamp (toEditable n i l) = timestamp l"
  by (simp add: toEditable_def)

lemma unique_new_entries:
  "map (e_order_update (\<lambda>_. 0))
     (filter (\<lambda>entry. e_timestamp entry \<notin> T)
        (map (\<lambda>(index, location). toEditable n index location) (enumerate k history)))
   = map (toEditable 0 0) (filter (\<lambda>stay. timestamp stay \<notin> T) history)"
  by (induction history arbitrary: k)
    (simp_all add: toEditable_timestamp toEditable_order_erased)

lemma handleAddFromLocationHistory_eq:
  "handleAddFromLocationHistory history entries =
     (let kept = filter (\<lambda>stay. timestamp stay \<notin> set (map e_timestamp entries)) history
      in if kept = [] then (entries, NoNewData)
         else (reindex (entries @ map (toEditable 0 0) kept), Added (length kept)))"
proof -
  define T where "T = set (map e_timestamp entries)"
  define new where "new = filter (\<lambda>entry. e_timestamp entry \<notin> T)
        (map (\<lambda>(index, location). toEditable (length entries) index location)
           (enumerate 0 history))"
  define kept where "kept = filter (\<lambda>stay. timestamp stay \<notin> T) history"
  have code: "handleAddFromLocationHistory history entries =
      (if length new > 0 then (reindex (entries @ new), Added (length new))
       else (entries, NoNewData))"
    unfolding handleAddFromLocationHistory_def Let_def new_def T_def ..
  have erased: "map (e_order_update (\<lambda>_. 0)) new = map (toEditable 0 0) kept"
    unfolding new_def kept_def by (rule unique_new_entries)
  then have "length (map (e_order_update (\<lambda>_. 0)) new) = length (map (toEditable 0 0) kept)"
    by (rule arg_cong)
  then have len: "length new = length kept" by simp
  have "map (e_order_update (\<lambda>_. 0)) (entries @ new)
          = map (e_order_update (\<lambda>_. 0)) (entries @ map (toEditable 0 0) kept)"
    using erased by (simp add: toEditable_order_erased)
  then have re: "reindex (entries @ new) = reindex (entries @ map (toEditable 0 0) kept)"
    by (rule reindex_cong)
  have "handleAddFromLocationHistory history entries =
      (if kept = [] then (entries, NoNewData)
       else (reindex (entries @ map (toEditable 0 0) kept), Added (length kept)))"
    unfolding code using len re by (cases "kept = []") simp_all
  then show ?thesis
    unfolding kept_def T_def Let_def .
qed





text \<open>
  C8. Merging an empty history returns the entries unchanged, and merging the same
  history a second time returns the result of the first merge and adds nothing.
\<close>

theorem merge_identity_and_idempotent:
  "handleAddFromLocationHistory [] entries = (entries, NoNewData)
   \<and> fst (handleAddFromLocationHistory history
            (fst (handleAddFromLocationHistory history entries)))
       = fst (handleAddFromLocationHistory history entries)
   \<and> snd (handleAddFromLocationHistory history
            (fst (handleAddFromLocationHistory history entries))) = NoNewData"
proof -
  let ?T = "set (map e_timestamp entries)"
  let ?kept = "filter (\<lambda>stay. timestamp stay \<notin> ?T) history"
  let ?m = "fst (handleAddFromLocationHistory history entries)"
  have empty: "handleAddFromLocationHistory [] entries = (entries, NoNewData)"
    by (simp add: handleAddFromLocationHistory_eq)
  have again: "handleAddFromLocationHistory history ?m = (?m, NoNewData)"
  proof (cases "?kept = []")
    case True
    then have "handleAddFromLocationHistory history entries = (entries, NoNewData)"
      by (simp add: handleAddFromLocationHistory_eq Let_def)
    then show ?thesis by simp
  next
    case False
    then have m: "?m = reindex (entries @ map (toEditable 0 0) ?kept)"
      by (simp add: handleAddFromLocationHistory_eq Let_def)
    have "map e_timestamp ?m = map e_timestamp entries @ map timestamp ?kept"
      unfolding m by (simp add: reindex_timestamps comp_def toEditable_timestamp)
    then have "set (map e_timestamp ?m) = ?T \<union> timestamp ` set ?kept"
      by simp
    then have "filter (\<lambda>stay. timestamp stay \<notin> set (map e_timestamp ?m)) history = []"
      by (auto simp: filter_empty_conv)
    then show ?thesis
      by (simp add: handleAddFromLocationHistory_eq [of history ?m] Let_def)
  qed
  from empty again show ?thesis by simp
qed


section \<open>Properties of saving a timeline\<close>

lemma delete_existing_open:
  "delete_existing existingEntries (Some d) =
     (Some (d\<lparr>timeline_rows := filter (survives existingEntries) (timeline_rows d)\<rparr>), None)"
proof (induction existingEntries arbitrary: d)
  case Nil
  show ?case by (simp add: survives_def)
next
  case (Cons x xs)
  show ?case
  proof (cases "t_id x")
    case None
    have "filter (survives (x # xs)) (timeline_rows d) = filter (survives xs) (timeline_rows d)"
      using None by (intro filter_cong) (auto simp: survives_def)
    with None Cons [of d] show ?thesis by simp
  next
    case (Some i)
    show ?thesis
    proof (cases "i = 0")
      case True
      have "filter (survives (x # xs)) (timeline_rows d) = filter (survives xs) (timeline_rows d)"
        using Some True by (intro filter_cong) (auto simp: survives_def)
      with Some True Cons [of d] show ?thesis by simp
    next
      case False
      let ?d = "d\<lparr>timeline_rows := filter (\<lambda>r. t_id r \<noteq> Some i) (timeline_rows d)\<rparr>"
      have "filter (survives xs) (filter (\<lambda>r. t_id r \<noteq> Some i) (timeline_rows d))
              = filter (survives (x # xs)) (timeline_rows d)"
        unfolding filter_filter using Some False
        by (intro filter_cong) (auto simp: survives_def)
      with Some False Cons [of ?d] show ?thesis
        by (simp add: deleteTimelineEntry_def)
    qed
  qed
qed

lemma or_null_number_idem: "or_null_number (or_null_number x) = or_null_number x"
  by (simp add: or_null_number_def split: option.splits)

lemma or_null_string_idem: "or_null_string (or_null_string x) = or_null_string x"
  by (simp add: or_null_string_def split: option.splits)

lemma create_new_valid_prefix:
  assumes "list_all (\<lambda>x. \<not> missing_required_fields x) good"
  shows "create_new cur (good @ rest) (Some d) =
           create_new cur rest
             (Some (d\<lparr>timeline_rows := timeline_rows d @ stored_rows cur (last_rowid d) good,
                      last_rowid := last_rowid d + length good\<rparr>))"
  using assms
proof (induction good arbitrary: d)
  case Nil
  show ?case by simp
next
  case (Cons x xs)
  let ?d = "d\<lparr>timeline_rows := timeline_rows d @ [stored_row cur (last_rowid d + 1) x],
               last_rowid := last_rowid d + 1\<rparr>"
  from Cons.prems have x: "\<not> missing_required_fields x"
    and xs: "list_all (\<lambda>x. \<not> missing_required_fields x) xs"
    by simp_all
  have step: "create_new cur ((x # xs) @ rest) (Some d) = create_new cur (xs @ rest) (Some ?d)"
    using x
    by (simp add: createTimelineEntry_def Let_def stored_row_def or_null_number_idem
        or_null_string_idem)
  show ?case
    unfolding step Cons.IH [OF xs, of ?d] by simp
qed

lemma save_of_well_formed_entries:
  assumes "list_all (\<lambda>x. \<not> missing_required_fields x) entries"
  shows "handleSaveTimeline (Some cur) view entries (Some d) =
           (Some (d\<lparr>timeline_rows :=
                      filter (survives (case view (d_id cur) of None \<Rightarrow> [] | Some es \<Rightarrow> es))
                        (timeline_rows d)
                      @ stored_rows cur (last_rowid d) entries,
                    last_rowid := last_rowid d + length entries\<rparr>),
            Saved)"
  using create_new_valid_prefix [OF assms, of cur "[]"]
  by (simp add: handleSaveTimeline_def Let_def delete_existing_open)

text \<open>
  C9 (as amended). If an entry of the batch lacks a label or a timestamp, the save
  ends with the error "Timeline entry missing required fields" at the first such
  entry. By then the rows of the daily entry that the screen holds have been deleted
  and the entries before the malformed one have been inserted; the malformed entry and
  the entries after it are not inserted.
\<close>

theorem save_stops_at_first_malformed_entry:
  assumes "list_all (\<lambda>x. \<not> missing_required_fields x) good"
    and "missing_required_fields bad"
  shows "handleSaveTimeline (Some cur) view (good @ bad # rest) (Some d) =
           (Some (d\<lparr>timeline_rows :=
                      filter (survives (case view (d_id cur) of None \<Rightarrow> [] | Some es \<Rightarrow> es))
                        (timeline_rows d)
                      @ stored_rows cur (last_rowid d) good,
                    last_rowid := last_rowid d + length good\<rparr>),
            SaveFailed MissingRequiredFields)"
  using assms(2)
  by (simp add: handleSaveTimeline_def Let_def delete_existing_open
      create_new_valid_prefix [OF assms(1)])

theorem save_stops_at_first_malformed_entry_witness:
  "list_all (\<lambda>x. \<not> missing_required_fields x) [example_new_entry ''Cafe'']
   \<and> missing_required_fields (example_new_entry '''')
   \<and> handleSaveTimeline (Some example_daily) (\<lambda>k. if k = 3 then Some [example_row] else None)
        ([example_new_entry ''Cafe''] @ example_new_entry '''' # [example_new_entry ''Park''])
        (Some \<lparr>timeline_rows = [example_row], last_rowid = 4\<rparr>)
      = (Some \<lparr>timeline_rows = [stored_row example_daily 5 (example_new_entry ''Cafe'')],
               last_rowid = 5\<rparr>,
         SaveFailed MissingRequiredFields)"
proof -
  have h1: "list_all (\<lambda>x. \<not> missing_required_fields x) [example_new_entry ''Cafe'']"
    by (simp add: missing_required_fields_def example_new_entry_def or_null_string_def)
  have h2: "missing_required_fields (example_new_entry '''')"
    by (simp add: missing_required_fields_def example_new_entry_def)
  have kept: "filter (survives [example_row]) [example_row] = []"
    by (simp add: survives_def example_row_def)
  from save_stops_at_first_malformed_entry [OF h1 h2, of example_daily
      "\<lambda>k. if k = 3 then Some [example_row] else None" "[example_new_entry ''Park'']"
      "\<lparr>timeline_rows = [example_row], last_rowid = 4\<rparr>"] h1 h2 kept
  show ?thesis
    by (simp add: example_daily_def)
qed

text \<open>
  Against C9 as stated: a daily entry with one stored row, and a batch of a well-formed
  entry followed by one without a label. The save fails, the stored row is gone and
  the first entry of the batch is in the table.
\<close>

theorem save_with_malformed_entry_writes_partially:
  "handleSaveTimeline (Some example_daily) (\<lambda>k. if k = 3 then Some [example_row] else None)
     [example_new_entry ''Cafe'', example_new_entry '''']
     (Some \<lparr>timeline_rows = [example_row], last_rowid = 4\<rparr>)
   = (Some \<lparr>timeline_rows = [stored_row example_daily 5 (example_new_entry ''Cafe'')],
            last_rowid = 5\<rparr>,
      SaveFailed MissingRequiredFields)
   \<and> example_row \<notin> set [stored_row example_daily 5 (example_new_entry ''Cafe'')]"
  by (simp add: handleSaveTimeline_def Let_def example_daily_def example_row_def
      example_new_entry_def deleteTimelineEntry_def createTimelineEntry_def
      missing_required_fields_def or_null_string_def or_null_number_def stored_row_def)


section \<open>Properties of the reverse label lookup\<close>

text \<open>
  The lookup is a total function of what the two geocoders answer: a rejection of
  either is a case of the definition, never a result. Its last resort, the coordinate
  string, is not empty, and it is what the lookup returns when both geocoders fail.
  The lookup returns a non-empty string whenever the address of the remote service,
  where that address is used, is not empty.
\<close>

lemma coordinate_label_nonempty: "coordinate_label e lat lon \<noteq> []"
  by (simp add: coordinate_label_def)

lemma remote_lookup_nonempty:
  assumes "\<And>data result rest. fetch_geocode e lat lon = Resolves data
             \<Longrightarrow> status data = ''OK'' \<Longrightarrow> results data = result # rest
             \<Longrightarrow> formatted_address result \<noteq> []"
  shows "remote_lookup e lat lon \<noteq> []"
  using assms
  by (auto simp: remote_lookup_def coordinate_label_nonempty split: outcome.splits list.splits)

lemma getLocationName_nonempty:
  assumes "\<And>data result rest. fetch_geocode e lat lon = Resolves data
             \<Longrightarrow> status data = ''OK'' \<Longrightarrow> results data = result # rest
             \<Longrightarrow> formatted_address result \<noteq> []"
  shows "getLocationName e lat lon \<noteq> []"
  using remote_lookup_nonempty [of e lat lon, OF assms]
  by (auto simp: getLocationName_def coordinate_label_nonempty split: outcome.splits list.splits)

lemma getLocationName_device:
  assumes "reverseGeocodeAsync e lat lon = Resolves (location # rest)"
    and "device_address location \<noteq> []"
  shows "getLocationName e lat lon = device_address location"
  using assms by (simp add: getLocationName_def)

lemma getLocationName_remote:
  assumes "reverseGeocodeAsync e lat lon = Resolves rs"
    and "rs = [] \<or> device_address (hd rs) = []"
    and "fetch_geocode e lat lon = Resolves data"
    and "status data = ''OK''" and "results data = result # rest"
  shows "getLocationName e lat lon = formatted_address result"
  using assms by (auto simp: getLocationName_def remote_lookup_def split: list.splits)

lemma getLocationName_fallback:
  assumes "reverseGeocodeAsync e lat lon = Rejects
           \<or> (\<exists>rs. reverseGeocodeAsync e lat lon = Resolves rs
                    \<and> (rs = [] \<or> device_address (hd rs) = [])
                    \<and> (fetch_geocode e lat lon = Rejects
                       \<or> (\<exists>data. fetch_geocode e lat lon = Resolves data
                               \<and> (status data \<noteq> ''OK'' \<or> results data = []))))"
  shows "getLocationName e lat lon = toFixed4 e lat @ '', '' @ toFixed4 e lon"
  using assms
  by (auto simp: getLocationName_def remote_lookup_def coordinate_label_def
      split: outcome.splits list.splits)

text \<open>
  C10. The claim: the lookup always returns a non-empty string. The address built from
  the device geocoder is returned only when it is non-empty, but the address of the
  remote service is returned as it comes: when the device geocoder finds nothing and
  the remote service answers \<open>OK\<close> with an empty \<open>formatted_address\<close>, the lookup
  returns the empty string.
\<close>

theorem blank_remote_address_is_returned:
  "reverseGeocodeAsync example_env_blank_remote 0 0 = Resolves []
   \<and> fetch_geocode example_env_blank_remote 0 0
       = Resolves \<lparr>status = ''OK'', results = [\<lparr>formatted_address = []\<rparr>]\<rparr>
   \<and> getLocationName example_env_blank_remote 0 0 = []"
  by (simp add: getLocationName_def remote_lookup_def example_env_blank_remote_def
      example_env_def)

end
